theory Spec2Isabelle
  imports Complex_Main
begin

section \<open>Python values used by the two scripts\<close>

text \<open>
  A Python \<open>str\<close> is a sequence of Unicode code points. The scripts print and compare
  text that is not ASCII (the status lines start with an emoji) and \<open>str.strip\<close> works
  on code points, so a string is a list of code points; \<open>ascii\<close> turns a literal of
  the theory into one.
\<close>

type_synonym pystr = "nat list"

definition ascii :: "string \<Rightarrow> pystr" where
  "ascii s = map of_char s"

text \<open>
  \<open>str(n)\<close> for a non-negative integer, as the f-strings
  \<^verbatim>\<open>f"Ready with {vectorstore.collection.count()} documents"\<close> and
  \<^verbatim>\<open>f"Documents: {doc_count}"\<close> need it.
\<close>

fun str_nat :: "nat \<Rightarrow> pystr" where
  "str_nat n = (if n < 10 then [48 + n] else str_nat (n div 10) @ [48 + n mod 10])"

declare str_nat.simps [simp del]

text \<open>
  The code points for which \<open>str.isspace\<close> holds; \<open>str.strip()\<close> without an argument
  removes exactly these from both ends.
\<close>

definition py_isspace :: "nat \<Rightarrow> bool" where
  "py_isspace c \<longleftrightarrow>
     (9 \<le> c \<and> c \<le> 13) \<or> (28 \<le> c \<and> c \<le> 32) \<or> c = 133 \<or> c = 160 \<or> c = 5760 \<or>
     (8192 \<le> c \<and> c \<le> 8202) \<or> c = 8232 \<or> c = 8233 \<or> c = 8239 \<or> c = 8287 \<or> c = 12288"

definition py_strip :: "pystr \<Rightarrow> pystr" where
  "py_strip s = rev (dropWhile py_isspace (rev (dropWhile py_isspace s)))"

text \<open>
  Every exception the scripts can meet is a subclass of \<open>Exception\<close> (the handlers are
  all \<^verbatim>\<open>except Exception as e\<close>); \<open>str_exn\<close> is \<open>str(e)\<close>.
\<close>

datatype exn =
    ImportError pystr
  | NameError pystr
  | AttributeError pystr
  | GenerationFailed pystr
  | OtherError pystr

fun str_exn :: "exn \<Rightarrow> pystr" where
  "str_exn (ImportError m) = m"
| "str_exn (NameError m) = m"
| "str_exn (AttributeError m) = m"
| "str_exn (GenerationFailed m) = m"
| "str_exn (OtherError m) = m"

text \<open>Sequencing inside a \<^verbatim>\<open>try\<close> body: the first raise ends the body.\<close>

definition bind_exn :: "exn + 'a \<Rightarrow> ('a \<Rightarrow> exn + 'b) \<Rightarrow> exn + 'b" where
  "bind_exn m f = (case m of Inl x \<Rightarrow> Inl x | Inr v \<Rightarrow> f v)"

section \<open>The objects of the pipeline module\<close>

text \<open>
  Both scripts import their collaborators from the module \<open>RagFullPipeline\<close>, which is
  not among the sources. Two kinds of value are fixed by the scripts themselves. The
  language model is an object with an \<open>invoke\<close> method, whose response has a
  \<open>content\<close>; the call may raise. The result of a request is a dictionary with the keys
  \<open>answer\<close>, \<open>sources\<close> and \<open>confidence\<close>, and a source is a dictionary with the keys
  \<open>source\<close>, \<open>page\<close> (optional), \<open>preview\<close> and \<open>score\<close>: this is what the request
  handler builds and reads.
\<close>

record llm_client =
  invoke :: "pystr \<Rightarrow> exn + pystr"

record scored_source =
  src_name :: pystr
  src_page :: "int option"
  src_preview :: pystr
  src_score :: real

record query_result =
  answer :: pystr
  sources :: "scored_source list"
  confidence :: real

text \<open>
  Modelled from the spec: the classes \<open>VectorStore\<close>, \<open>EmbeddingManager\<close> and
  \<open>RagRetriever\<close> are absent from the sources; the scripts only construct them, store
  them and pass them on. A store is its chunks in insertion order together with the
  similarity it was created with (cosine or inner product, chosen once); an embedding
  manager is its \<open>embed\<close> function; a retriever composes a store and an embedding
  manager. Scores and confidences are real numbers here.
\<close>

record chunk =
  chunk_id :: pystr
  chunk_text :: pystr
  chunk_source :: pystr
  chunk_page :: "int option"
  chunk_embedding :: "real list"

record vector_store =
  chunks :: "chunk list"
  similarity :: "real list \<Rightarrow> real list \<Rightarrow> real"

record embedding_manager =
  embed :: "pystr \<Rightarrow> real list"

record rag_retriever =
  r_store :: vector_store
  r_embedder :: embedding_manager

section \<open>prebuild.py\<close>

text \<open>
  What \<open>prebuild_vector_store\<close> meets outside itself: the outcome of the constructor
  call \<^verbatim>\<open>VectorStore(persist_directory=..., use_persistent=True, pdf_folder=".")\<close>,
  the outcome of \<^verbatim>\<open>vectorstore.collection.count()\<close>, and the two readings of
  \<^verbatim>\<open>time.time()\<close>.
\<close>

record build_env =
  build_store :: "exn + vector_store"
  build_count :: "vector_store \<Rightarrow> exn + nat"
  clock_start :: real
  clock_end :: real

text \<open>
  A printed line. The elapsed time is printed with \<^verbatim>\<open>:.2f\<close>; the line keeps the
  number that is formatted.
\<close>

datatype line =
    Text pystr
  | TimeTaken real

record process_end =
  stdout :: "line list"
  exit_status :: nat

definition prebuild_try :: "build_env \<Rightarrow> exn + line list" where
  "prebuild_try b =
     bind_exn (build_store b) (\<lambda>vectorstore.
     bind_exn (build_count b vectorstore) (\<lambda>doc_count.
       Inr [Text (9989 # ascii '' Vector store built successfully!''),
            Text (128218 # ascii '' Documents: '' @ str_nat doc_count),
            TimeTaken (clock_end b - clock_start b)]))"

text \<open>
  The function prints its banner, runs the \<^verbatim>\<open>try\<close> body, and in the handler
  prints the error and calls \<^verbatim>\<open>sys.exit(1)\<close>. When it returns normally the script
  ends, with exit status 0.
\<close>

definition prebuild_vector_store :: "build_env \<Rightarrow> process_end" where
  "prebuild_vector_store b =
     (let banner = Text (128640 # ascii '' Pre-building vector store...'') in
      case prebuild_try b of
        Inr printed \<Rightarrow> \<lparr>stdout = banner # printed, exit_status = 0\<rparr>
      | Inl e \<Rightarrow>
          \<lparr>stdout = [banner, Text (10060 # ascii '' Error building vector store: '' @ str_exn e)],
           exit_status = 1\<rparr>)"

section \<open>The retrieval pipeline called by the request handler\<close>

text \<open>
  The request handler of \<open>streamlit_app.py\<close> calls \<open>rag_advanced\<close> of the module
  \<open>RagFullPipeline\<close>. The module is not among the sources, so the operations of this
  section follow the specification's description of the store, the retriever and the
  orchestrator. What the specification leaves to configuration is a field of
  \<open>pipeline_config\<close>: the two prompt templates and the length of a preview.
\<close>

record pipeline_config =
  plain_prompt :: "pystr \<Rightarrow> pystr"
  context_prompt :: "pystr \<Rightarrow> scored_source list \<Rightarrow> pystr"
  preview_length :: nat

text \<open>
  Modelled from the spec: \<open>VectorStore.search\<close> is absent from the sources. It returns
  up to \<open>k\<close> nearest neighbours by similarity, descending by score, ties broken by
  insertion order (the earlier chunk first). \<open>sort_key\<close> is a stable insertion sort,
  and the key is the negated score.
\<close>

definition search :: "vector_store \<Rightarrow> real list \<Rightarrow> nat \<Rightarrow> (chunk \<times> real) list" where
  "search vs qv k =
     take k (sort_key (\<lambda>p. - snd p)
       (map (\<lambda>c. (c, similarity vs qv (chunk_embedding c))) (chunks vs)))"

text \<open>
  Modelled from the spec: the projection of a chunk and its score to a
  \<open>ScoredSource\<close>, with a preview that is the first \<open>n\<close> characters of the chunk.
\<close>

definition to_scored_source :: "nat \<Rightarrow> chunk \<times> real \<Rightarrow> scored_source" where
  "to_scored_source n p =
     \<lparr>src_name = chunk_source (fst p), src_page = chunk_page (fst p),
      src_preview = take n (chunk_text (fst p)), src_score = snd p\<rparr>"

text \<open>
  Modelled from the spec: \<open>Retriever.retrieve\<close> is absent from the sources. It embeds
  the query, searches the store for \<open>top_k\<close> neighbours, filters out every result with
  \<open>score < min_score\<close> and maps the survivors to scored sources, in the order of the
  search.
\<close>

definition retrieve ::
  "pipeline_config \<Rightarrow> rag_retriever \<Rightarrow> pystr \<Rightarrow> nat \<Rightarrow> real \<Rightarrow> scored_source list" where
  "retrieve cfg r query top_k min_score =
     map (to_scored_source (preview_length cfg))
       (filter (\<lambda>p. \<not> snd p < min_score)
         (search (r_store r) (embed (r_embedder r) query) top_k))"

text \<open>
  Modelled from the spec: the prompt of the retrieval-augmented path (steps 2b and 2c
  of the orchestrator). With sources it is the prompt that embeds the query and the
  source previews; with none it is the generation-only prompt, built from the query
  alone.
\<close>

definition rag_prompt :: "pipeline_config \<Rightarrow> pystr \<Rightarrow> scored_source list \<Rightarrow> pystr" where
  "rag_prompt cfg query srcs =
     (if srcs \<noteq> [] then context_prompt cfg query srcs else plain_prompt cfg query)"

text \<open>
  Modelled from the spec: the confidence of the retrieval-augmented path (step 2e),
  \<open>0.5 + 0.5 * top_score\<close> clamped to the unit interval when sources are present (the
  top score is the first one, the list being in descending order) and the fixed
  baseline 0.8 when none was used.
\<close>

definition rag_confidence :: "scored_source list \<Rightarrow> real" where
  "rag_confidence srcs =
     (case srcs of
        [] \<Rightarrow> 0.8
      | s # _ \<Rightarrow> max 0 (min 1 (0.5 + 0.5 * src_score s)))"

text \<open>
  Modelled from the spec: \<open>rag_advanced\<close> is absent from the sources. It is the
  retrieval-augmented path of the orchestrator: retrieve, build the prompt, call the
  generation client, compute the confidence. A failing generation call is surfaced as
  \<open>GenerationFailed\<close>, with no partial result.
\<close>

definition rag_advanced ::
  "pipeline_config \<Rightarrow> pystr \<Rightarrow> rag_retriever \<Rightarrow> llm_client \<Rightarrow> nat \<Rightarrow> real
     \<Rightarrow> exn + query_result" where
  "rag_advanced cfg query r l top_k min_score =
     (let srcs = retrieve cfg r query top_k min_score in
      case invoke l (rag_prompt cfg query srcs) of
        Inl x \<Rightarrow> Inl (GenerationFailed (str_exn x))
      | Inr a \<Rightarrow> Inr \<lparr>answer = a, sources = srcs, confidence = rag_confidence srcs\<rparr>)"

section \<open>streamlit_app.py\<close>

text \<open>
  The script runs from top to bottom on every interaction. The page configuration, the
  style sheet, the loading of the API key and the static text are left out; what
  follows is the session state, the two loader functions, the two sidebar blocks that
  call them, the request handler and the buttons of the second column.
\<close>

subsection \<open>Session state and the world outside the script\<close>

text \<open>
  \<open>st.session_state\<close> survives from one run of the script to the next. The script
  reads and writes these keys; a key that was never written is \<open>None\<close>. The two
  \<open>setdefault\<close> calls at the top give the flags the value \<open>False\<close> in a new session.
\<close>

record session =
  rag_initialized :: bool
  vector_store_ready :: bool
  ss_llm :: "llm_client option"
  ss_embedding_manager :: "embedding_manager option"
  ss_vectorstore :: "vector_store option"
  ss_retriever :: "rag_retriever option"
  ss_last_query :: "pystr option"

definition fresh_session :: session where
  "fresh_session =
     \<lparr>rag_initialized = False, vector_store_ready = False, ss_llm = None,
      ss_embedding_manager = None, ss_vectorstore = None, ss_retriever = None,
      ss_last_query = None\<rparr>"

text \<open>
  What a run meets outside the script: whether \<^verbatim>\<open>from RagFullPipeline import ...\<close>
  raises, what \<open>initialize_llm()\<close> returns (\<open>None\<close> for a falsy result) or raises,
  the outcome of \<open>EmbeddingManager()\<close>, whether \<^verbatim>\<open>./prebuilt_vector_store\<close> exists,
  the outcome of opening the store there, and the outcome of
  \<^verbatim>\<open>vectorstore.collection.count()\<close>.
\<close>

record env =
  import_pipeline :: "exn + unit"
  initialize_llm :: "exn + llm_client option"
  new_embedding_manager :: "exn + embedding_manager"
  persist_dir_exists :: bool
  open_vector_store :: "exn + vector_store"
  collection_count :: "vector_store \<Rightarrow> exn + nat"

text \<open>What the page shows; a number that the script formats is kept as the number.\<close>

datatype ui =
    StSuccess pystr
  | StError pystr
  | StInfo pystr
  | StMarkdown pystr
  | StWrite pystr
  | StMetric pystr real
  | StSubheader pystr
  | StExpander nat scored_source

text \<open>The calls a request makes into the pipeline and the language model.\<close>

datatype call =
    CallRagAdvanced pystr nat real
  | CallLlmInvoke pystr

subsection \<open>initialize_minimal_rag and load_vector_store_lazy\<close>

text \<open>
  Each function is one \<^verbatim>\<open>try\<close> body and one \<^verbatim>\<open>except Exception as e\<close> handler.
  The body is a computation that may raise; the function returns what the body returns,
  or what the handler makes of the exception.
\<close>

definition initialize_try ::
  "env \<Rightarrow> exn + (llm_client option \<times> embedding_manager option \<times> pystr option)" where
  "initialize_try e =
     bind_exn (import_pipeline e) (\<lambda>_.
     bind_exn (initialize_llm e) (\<lambda>llm.
       case llm of
         None \<Rightarrow> Inr (None, None, None)
       | Some l \<Rightarrow>
           bind_exn (new_embedding_manager e) (\<lambda>m.
             Inr (Some l, Some m, Some (ascii ''Components loaded'')))))"

definition initialize_minimal_rag ::
  "env \<Rightarrow> llm_client option \<times> embedding_manager option \<times> pystr option" where
  "initialize_minimal_rag e =
     (case initialize_try e of
        Inr r \<Rightarrow> r
      | Inl x \<Rightarrow> (None, None, Some (str_exn x)))"

definition load_try :: "env \<Rightarrow> exn + (vector_store option \<times> pystr)" where
  "load_try e =
     bind_exn (import_pipeline e) (\<lambda>_.
       if \<not> persist_dir_exists e then Inr (None, ascii ''No legal database available'')
       else
         bind_exn (open_vector_store e) (\<lambda>vectorstore.
         bind_exn (collection_count e vectorstore) (\<lambda>n.
           Inr (Some vectorstore, ascii ''Ready with '' @ str_nat n @ ascii '' documents''))))"

definition load_vector_store_lazy :: "env \<Rightarrow> vector_store option \<times> pystr" where
  "load_vector_store_lazy e =
     (case load_try e of
        Inr r \<Rightarrow> r
      | Inl x \<Rightarrow> (None, ascii ''Database error: '' @ str_exn x))"

subsection \<open>The sidebar blocks\<close>

text \<open>
  The first block runs \<open>initialize_minimal_rag\<close> while \<open>rag_initialized\<close> is false and
  stores the two components when both are there.
\<close>

definition init_components :: "env \<Rightarrow> session \<Rightarrow> session \<times> ui list" where
  "init_components e s =
     (if \<not> rag_initialized s then
        (case initialize_minimal_rag e of
           (Some l, Some m, status_msg) \<Rightarrow>
             (s\<lparr>ss_llm := Some l, ss_embedding_manager := Some m, rag_initialized := True\<rparr>,
              [StSuccess (9989 # ascii '' AI System Ready'')])
         | _ \<Rightarrow> (s, [StError (10060 # ascii '' System initialization failed'')]))
      else (s, []))"

text \<open>
  The second block loads the store. When \<open>load_vector_store_lazy\<close> returns a store the
  script assigns it to the session and then evaluates
  \<^verbatim>\<open>RagRetriever(vectorstore, st.session_state.embedding_manager)\<close>. The name
  \<open>RagRetriever\<close> is imported inside \<open>load_vector_store_lazy\<close> only, so it is local to
  that function; at module level it is unbound, and the call raises \<open>NameError\<close> before
  anything is assigned to \<open>retriever\<close> or \<open>vector_store_ready\<close>. The block is not inside
  a \<^verbatim>\<open>try\<close>, so the exception ends the run. The third component of the result is the
  exception that escapes, if any.
\<close>

definition name_error_RagRetriever :: exn where
  "name_error_RagRetriever =
     NameError (ascii ''name '' @ [39] @ ascii ''RagRetriever'' @ [39] @ ascii '' is not defined'')"

definition init_database :: "env \<Rightarrow> session \<Rightarrow> session \<times> ui list \<times> exn option" where
  "init_database e s =
     (if rag_initialized s \<and> \<not> vector_store_ready s then
        (case load_vector_store_lazy e of
           (Some vectorstore, vector_status) \<Rightarrow>
             (s\<lparr>ss_vectorstore := Some vectorstore\<rparr>, [], Some name_error_RagRetriever)
         | (None, vector_status) \<Rightarrow>
             (s, [StInfo (128161 # ascii '' Using AI-only mode'')], None))
      else (s, [], None))"

subsection \<open>The request handler\<close>

definition llm_only_prompt :: "pystr \<Rightarrow> pystr" where
  "llm_only_prompt query =
     [10] @ replicate 24 32 @
     ascii ''You are an expert legal scholar. Answer this legal question:'' @ [10, 10] @
     replicate 24 32 @ query @ [10, 10] @ replicate 24 32 @
     ascii ''Provide a comprehensive legal analysis with relevant principles and examples.'' @
     [10] @ replicate 24 32"

text \<open>
  The body of the handler's \<^verbatim>\<open>try\<close>, up to the \<open>result\<close> dictionary: the import of
  \<open>rag_advanced\<close>, then the retriever when the session has one and the language model
  alone when it has none. \<open>st.session_state.llm\<close> raises \<open>AttributeError\<close> for a key
  that was never written. The second component lists the calls that were made.
\<close>

definition attribute_error_llm :: exn where
  "attribute_error_llm = AttributeError (ascii ''st.session_state has no attribute llm'')"

definition answer_try ::
  "pipeline_config \<Rightarrow> env \<Rightarrow> session \<Rightarrow> nat \<Rightarrow> real \<Rightarrow> pystr
     \<Rightarrow> (exn + query_result) \<times> call list" where
  "answer_try cfg e s top_k min_score query =
     (case import_pipeline e of
        Inl x \<Rightarrow> (Inl x, [])
      | Inr _ \<Rightarrow>
          (case ss_retriever s of
             Some r \<Rightarrow>
               (case ss_llm s of
                  None \<Rightarrow> (Inl attribute_error_llm, [])
                | Some l \<Rightarrow>
                    (rag_advanced cfg query r l top_k min_score,
                     [CallRagAdvanced query top_k min_score]))
           | None \<Rightarrow>
               (case ss_llm s of
                  None \<Rightarrow> (Inl attribute_error_llm, [])
                | Some l \<Rightarrow>
                    (case invoke l (llm_only_prompt query) of
                       Inl x \<Rightarrow> (Inl x, [CallLlmInvoke (llm_only_prompt query)])
                     | Inr content \<Rightarrow>
                         (Inr \<lparr>answer = content, sources = [], confidence = 0.8\<rparr>,
                          [CallLlmInvoke (llm_only_prompt query)])))))"

text \<open>
  The rest of the \<^verbatim>\<open>try\<close> body shows the result: the answer, the confidence when it
  is truthy (not zero), and the sources when there are any, numbered from 1.
\<close>

definition render_result :: "query_result \<Rightarrow> ui list" where
  "render_result r =
     [StMarkdown (ascii ''### '' @ [128221] @ ascii '' Legal Analysis''),
      StMarkdown (ascii ''<div class='' @ [34] @ ascii ''response-box'' @ [34] @ ascii ''>''),
      StWrite (answer r),
      StMarkdown (ascii ''</div>'')] @
     (if confidence r \<noteq> 0 then [StMetric (ascii ''Confidence Score'') (confidence r)] else []) @
     (if sources r \<noteq> [] then
        StSubheader (128218 # ascii '' Legal Sources'') #
        map (\<lambda>(i, src). StExpander i src) (zip [1 ..< Suc (length (sources r))] (sources r))
      else [])"

record handled =
  h_ui :: "ui list"
  h_calls :: "call list"
  h_result :: "query_result option"

text \<open>
  The handler of the button, with its two guards before the \<^verbatim>\<open>try\<close> and the
  \<^verbatim>\<open>except Exception as e\<close> that turns any exception of the body into an error
  message.
\<close>

definition handle_query ::
  "pipeline_config \<Rightarrow> env \<Rightarrow> session \<Rightarrow> nat \<Rightarrow> real \<Rightarrow> pystr \<Rightarrow> handled" where
  "handle_query cfg e s top_k min_score query =
     (if py_strip query = [] then
        \<lparr>h_ui = [StError (ascii ''Please enter a legal question'')], h_calls = [],
         h_result = None\<rparr>
      else if \<not> rag_initialized s then
        \<lparr>h_ui = [StError (ascii ''System not ready. Please check status.'')], h_calls = [],
         h_result = None\<rparr>
      else
        (case answer_try cfg e s top_k min_score query of
           (Inr r, cs) \<Rightarrow> \<lparr>h_ui = render_result r, h_calls = cs, h_result = Some r\<rparr>
         | (Inl x, cs) \<Rightarrow>
             \<lparr>h_ui = [StError (ascii ''Error processing query: '' @ str_exn x)],
              h_calls = cs, h_result = None\<rparr>))"

subsection \<open>One run of the script\<close>

datatype button = GetLegalAnswer | ExampleQuestion nat | RefreshSystem

record inputs =
  in_top_k :: nat
  in_min_score :: real
  in_query :: pystr
  in_clicked :: "button option"

definition examples :: "pystr list" where
  "examples =
     [ascii ''What constitutes murder under Nigerian criminal law?'',
      ascii ''Explain the requirements for a valid contract'',
      ascii ''What are the defenses to defamation?'',
      ascii ''How does the statute of limitations work in tort cases?'']"

record run =
  r_session :: session
  r_ui :: "ui list"
  r_calls :: "call list"
  r_result :: "query_result option"
  r_uncaught :: "exn option"
  r_rerun :: bool

text \<open>
  The script from top to bottom: the two sidebar blocks, the handler when its button was
  clicked, then the buttons of the second column. An example button stores the question
  and asks for a rerun; the refresh button clears \<open>vector_store_ready\<close> and asks for a
  rerun. An exception that escapes the second block ends the run there.
\<close>

definition run_once :: "pipeline_config \<Rightarrow> env \<Rightarrow> inputs \<Rightarrow> session \<Rightarrow> run" where
  "run_once cfg e inp s =
     (let (s1, ui1) = init_components e s;
          (s2, ui2, raised) = init_database e s1
      in case raised of
           Some x \<Rightarrow>
             \<lparr>r_session = s2, r_ui = ui1 @ ui2, r_calls = [], r_result = None,
              r_uncaught = Some x, r_rerun = False\<rparr>
         | None \<Rightarrow>
             (let h = (if in_clicked inp = Some GetLegalAnswer
                       then handle_query cfg e s2 (in_top_k inp) (in_min_score inp) (in_query inp)
                       else \<lparr>h_ui = [], h_calls = [], h_result = None\<rparr>);
                  (s3, rerun) =
                    (case in_clicked inp of
                       Some (ExampleQuestion i) \<Rightarrow>
                         if i < length examples
                         then (s2\<lparr>ss_last_query := Some (examples ! i)\<rparr>, True)
                         else (s2, False)
                     | Some RefreshSystem \<Rightarrow> (s2\<lparr>vector_store_ready := False\<rparr>, True)
                     | _ \<Rightarrow> (s2, False))
              in \<lparr>r_session = s3, r_ui = ui1 @ ui2 @ h_ui h, r_calls = h_calls h,
                  r_result = h_result h, r_uncaught = None, r_rerun = rerun\<rparr>))"

text \<open>
  \<open>st.rerun()\<close> starts the script again at once, on the same session and with no button
  clicked; what the page shows is what the second run produced.
\<close>

definition run_script :: "pipeline_config \<Rightarrow> env \<Rightarrow> inputs \<Rightarrow> session \<Rightarrow> run" where
  "run_script cfg e inp s =
     (let r = run_once cfg e inp s in
      if r_rerun r then run_once cfg e (inp\<lparr>in_clicked := None\<rparr>) (r_session r) else r)"

text \<open>The sessions a user can be in: a new one, and whatever a run leaves behind.\<close>

inductive reachable :: "session \<Rightarrow> bool" where
  reachable_fresh: "reachable fresh_session"
| reachable_run: "reachable s \<Longrightarrow> reachable (r_session (run_script cfg e inp s))"

section \<open>Concrete inputs\<close>

text \<open>
  A language model that answers every prompt with the same text, one that always fails,
  an embedder that maps every text to the unit vector of dimension one, and a store of
  two chunks whose similarity to that vector (the inner product) is 0.5 and 0.8.
\<close>

definition example_llm :: llm_client where
  "example_llm = \<lparr>invoke = (\<lambda>prompt. Inr (ascii ''Negligence is a tort.''))\<rparr>"

definition failing_llm :: llm_client where
  "failing_llm = \<lparr>invoke = (\<lambda>prompt. Inl (OtherError (ascii ''timeout'')))\<rparr>"

definition example_embedder :: embedding_manager where
  "example_embedder = \<lparr>embed = (\<lambda>text. [1])\<rparr>"

definition example_store :: vector_store where
  "example_store =
     \<lparr>chunks =
        [\<lparr>chunk_id = ascii ''c0'', chunk_text = ascii ''A contract requires offer and acceptance.'',
          chunk_source = ascii ''contract.pdf'', chunk_page = Some 3, chunk_embedding = [0.5]\<rparr>,
         \<lparr>chunk_id = ascii ''c1'',
          chunk_text = ascii ''Negligence requires duty, breach, causation, and damage.'',
          chunk_source = ascii ''tort.pdf'', chunk_page = None, chunk_embedding = [0.8]\<rparr>],
      similarity = (\<lambda>q c. sum_list (map2 (*) q c))\<rparr>"

definition example_retriever :: rag_retriever where
  "example_retriever = \<lparr>r_store = example_store, r_embedder = example_embedder\<rparr>"

definition example_cfg :: pipeline_config where
  "example_cfg =
     \<lparr>plain_prompt = (\<lambda>q. ascii ''Question: '' @ q),
      context_prompt = (\<lambda>q srcs. concat (map src_preview srcs) @ ascii '' Question: '' @ q),
      preview_length = 10\<rparr>"

definition example_query :: pystr where
  "example_query = ascii ''What is negligence?''"

text \<open>
  Five worlds: one where the store directory is missing, one where it holds the store
  above, one where the directory is there and the store in it cannot be opened, one
  where the pipeline module cannot be imported, and one where \<open>initialize_llm\<close>
  returns nothing.
\<close>

definition env_no_store :: env where
  "env_no_store =
     \<lparr>import_pipeline = Inr (), initialize_llm = Inr (Some example_llm),
      new_embedding_manager = Inr example_embedder, persist_dir_exists = False,
      open_vector_store = Inl (OtherError (ascii ''no such directory'')),
      collection_count = (\<lambda>vs. Inr (length (chunks vs)))\<rparr>"

definition env_with_store :: env where
  "env_with_store =
     \<lparr>import_pipeline = Inr (), initialize_llm = Inr (Some example_llm),
      new_embedding_manager = Inr example_embedder, persist_dir_exists = True,
      open_vector_store = Inr example_store,
      collection_count = (\<lambda>vs. Inr (length (chunks vs)))\<rparr>"

definition env_corrupt_store :: env where
  "env_corrupt_store =
     \<lparr>import_pipeline = Inr (), initialize_llm = Inr (Some example_llm),
      new_embedding_manager = Inr example_embedder, persist_dir_exists = True,
      open_vector_store = Inl (OtherError (ascii ''corrupt index'')),
      collection_count = (\<lambda>vs. Inr (length (chunks vs)))\<rparr>"

definition env_import_fails :: env where
  "env_import_fails =
     \<lparr>import_pipeline = Inl (ImportError (ascii ''No module named chromadb'')),
      initialize_llm = Inr (Some example_llm),
      new_embedding_manager = Inr example_embedder, persist_dir_exists = True,
      open_vector_store = Inr example_store,
      collection_count = (\<lambda>vs. Inr (length (chunks vs)))\<rparr>"

definition env_no_llm :: env where
  "env_no_llm =
     \<lparr>import_pipeline = Inr (), initialize_llm = Inr None,
      new_embedding_manager = Inr example_embedder, persist_dir_exists = False,
      open_vector_store = Inl (OtherError (ascii ''no such directory'')),
      collection_count = (\<lambda>vs. Inr (length (chunks vs)))\<rparr>"

text \<open>
  A request: the sliders at 3 and 0.3 (their defaults), the question above, and the
  answer button clicked.
\<close>

definition example_inputs :: inputs where
  "example_inputs =
     \<lparr>in_top_k = 3, in_min_score = 0.3, in_query = example_query,
      in_clicked = Some GetLegalAnswer\<rparr>"

text \<open>
  A session whose components are loaded, without and with a retriever.
\<close>

definition ready_session :: session where
  "ready_session =
     fresh_session\<lparr>rag_initialized := True, ss_llm := Some example_llm,
       ss_embedding_manager := Some example_embedder\<rparr>"

definition retriever_session :: session where
  "retriever_session =
     ready_session\<lparr>vector_store_ready := True, ss_vectorstore := Some example_store,
       ss_retriever := Some example_retriever\<rparr>"

section \<open>Auxiliary facts\<close>

lemmas example_defs = example_llm_def failing_llm_def example_embedder_def example_store_def
  example_retriever_def example_cfg_def example_query_def env_no_store_def env_with_store_def
  env_corrupt_store_def env_import_fails_def env_no_llm_def example_inputs_def ready_session_def retriever_session_def
  fresh_session_def

lemma bind_exn_simps [simp]:
  "bind_exn (Inl x) f = Inl x" "bind_exn (Inr v) f = f v"
  by (simp_all add: bind_exn_def)

subsection \<open>Stripping\<close>

lemma py_strip_empty_iff: "py_strip q = [] \<longleftrightarrow> (\<forall>c\<in>set q. py_isspace c)"
proof
  assume "py_strip q = []"
  then have all_rest: "\<forall>c\<in>set (dropWhile py_isspace q). py_isspace c"
    by (simp add: py_strip_def dropWhile_eq_Nil_conv)
  have "dropWhile py_isspace q = []"
  proof (rule ccontr)
    assume ne: "dropWhile py_isspace q \<noteq> []"
    then have "\<not> py_isspace (hd (dropWhile py_isspace q))"
      by (rule hd_dropWhile)
    moreover have "hd (dropWhile py_isspace q) \<in> set (dropWhile py_isspace q)"
      using ne by simp
    ultimately show False using all_rest by blast
  qed
  then show "\<forall>c\<in>set q. py_isspace c"
    by (simp add: dropWhile_eq_Nil_conv)
next
  assume "\<forall>c\<in>set q. py_isspace c"
  then have d: "dropWhile py_isspace q = []"
    by (simp add: dropWhile_eq_Nil_conv)
  show "py_strip q = []"
    unfolding py_strip_def d by simp
qed

subsection \<open>The retrieval pipeline\<close>

lemma search_sorted: "sorted (map (\<lambda>p. - snd p) (search vs qv k))"
proof -
  have "sorted (take k (map (\<lambda>p. - snd p)
          (sort_key (\<lambda>p. - snd p) (map (\<lambda>c. (c, similarity vs qv (chunk_embedding c))) (chunks vs)))))"
    by (rule sorted_wrt_take) (rule sorted_sort_key)
  then show ?thesis
    by (simp add: search_def take_map)
qed

lemma search_length: "length (search vs qv k) \<le> k"
  by (simp add: search_def)

lemma retrieve_scores:
  "map src_score (retrieve cfg r query top_k min_score) =
     map snd (filter (\<lambda>p. \<not> snd p < min_score)
       (search (r_store r) (embed (r_embedder r) query) top_k))"
  by (simp add: retrieve_def to_scored_source_def comp_def)

lemma retrieve_sorted:
  "sorted_wrt (\<lambda>a b. src_score b \<le> src_score a) (retrieve cfg r query top_k min_score)"
proof -
  let ?found = "search (r_store r) (embed (r_embedder r) query) top_k"
  have "sorted (map (\<lambda>p. - snd p) (filter (\<lambda>p. \<not> snd p < min_score) ?found))"
    by (rule sorted_filter) (rule search_sorted)
  then have "sorted_wrt (\<lambda>p q. snd q \<le> snd p) (filter (\<lambda>p. \<not> snd p < min_score) ?found)"
    by (simp add: sorted_map)
  then show ?thesis
    by (simp add: retrieve_def sorted_wrt_map to_scored_source_def)
qed

lemma retrieve_min_score:
  "x \<in> set (retrieve cfg r query top_k min_score) \<Longrightarrow> min_score \<le> src_score x"
  by (auto simp: retrieve_def to_scored_source_def)

lemma rag_confidence_bounds: "0 \<le> rag_confidence srcs \<and> rag_confidence srcs \<le> 1"
  by (simp add: rag_confidence_def split: list.split)

lemma rag_advanced_result:
  "rag_advanced cfg query r l top_k min_score = Inr res \<Longrightarrow>
     sources res = retrieve cfg r query top_k min_score \<and>
     confidence res = rag_confidence (retrieve cfg r query top_k min_score)"
  by (auto simp: rag_advanced_def Let_def split: sum.splits)

subsection \<open>The request handler\<close>

lemma answer_try_result:
  assumes "answer_try cfg e s top_k min_score query = (Inr res, cs)"
  shows "(\<exists>r l. ss_retriever s = Some r \<and> ss_llm s = Some l \<and>
            rag_advanced cfg query r l top_k min_score = Inr res) \<or>
         (ss_retriever s = None \<and> sources res = [] \<and> confidence res = 0.8)"
  using assms
  by (auto simp: answer_try_def split: sum.splits option.splits)

lemma handle_query_result:
  assumes "h_result (handle_query cfg e s top_k min_score query) = Some res"
  shows "(\<exists>r l. ss_retriever s = Some r \<and> ss_llm s = Some l \<and>
            rag_advanced cfg query r l top_k min_score = Inr res) \<or>
         (ss_retriever s = None \<and> sources res = [] \<and> confidence res = 0.8)"
proof -
  from assms obtain cs where "answer_try cfg e s top_k min_score query = (Inr res, cs)"
    by (auto simp: handle_query_def split: if_splits prod.splits sum.splits)
  then show ?thesis by (rule answer_try_result)
qed

lemma handle_query_calls_without_retriever:
  assumes "ss_retriever s = None"
  shows "set (h_calls (handle_query cfg e s top_k min_score query))
           \<subseteq> {CallLlmInvoke (llm_only_prompt query)}"
  using assms
  by (auto simp: handle_query_def answer_try_def split: sum.splits option.splits)

text \<open>
  The dispatch of the handler: a request that passes the two guards, with the pipeline
  importable and a language model in the session, calls \<open>rag_advanced\<close> exactly when
  the session holds a retriever and the language model alone otherwise.
\<close>

lemma handle_query_dispatch:
  assumes "py_strip query \<noteq> []" and "rag_initialized s" and "import_pipeline e = Inr ()"
    and "ss_llm s = Some l"
  shows "h_calls (handle_query cfg e s top_k min_score query) =
           (case ss_retriever s of
              Some r \<Rightarrow> [CallRagAdvanced query top_k min_score]
            | None \<Rightarrow> [CallLlmInvoke (llm_only_prompt query)])"
  using assms
  by (auto simp: handle_query_def answer_try_def split: sum.splits option.splits)

lemma handle_query_not_initialized:
  assumes "\<not> rag_initialized s"
  shows "h_calls (handle_query cfg e s top_k min_score query) = [] \<and>
         h_result (handle_query cfg e s top_k min_score query) = None"
  using assms by (simp add: handle_query_def)

subsection \<open>Runs of the script\<close>

lemma init_components_retriever: "ss_retriever (fst (init_components e s)) = ss_retriever s"
  by (auto simp: init_components_def split: prod.splits option.splits)

lemma init_database_retriever: "ss_retriever (fst (init_database e s)) = ss_retriever s"
  by (auto simp: init_database_def split: prod.splits option.splits)

lemma run_once_retriever: "ss_retriever (r_session (run_once cfg e inp s)) = ss_retriever s"
  using init_components_retriever [of e s]
    init_database_retriever [of e "fst (init_components e s)"]
  by (auto simp: run_once_def Let_def split: prod.splits option.splits button.splits)

lemma run_script_retriever: "ss_retriever (r_session (run_script cfg e inp s)) = ss_retriever s"
  by (simp add: run_script_def Let_def run_once_retriever)

lemma reachable_no_retriever: "reachable s \<Longrightarrow> ss_retriever s = None"
  by (induction rule: reachable.induct) (simp_all add: fresh_session_def run_script_retriever)

lemma init_database_quiet:
  assumes "fst (load_vector_store_lazy e) = None \<or> \<not> rag_initialized s"
  shows "snd (snd (init_database e s)) = None"
  using assms by (auto simp: init_database_def split: prod.splits option.splits)

lemma init_database_raises:
  assumes "fst (load_vector_store_lazy e) = Some vs" "rag_initialized s" "\<not> vector_store_ready s"
  shows "snd (snd (init_database e s)) = Some name_error_RagRetriever"
  using assms by (auto simp: init_database_def split: prod.splits option.splits)

lemma run_once_uncaught:
  "r_uncaught (run_once cfg e inp s) = snd (snd (init_database e (fst (init_components e s))))"
  by (auto simp: run_once_def Let_def split: prod.splits option.splits button.splits)

lemma run_once_calls:
  "set (r_calls (run_once cfg e inp s)) \<subseteq>
     set (h_calls (handle_query cfg e (fst (init_database e (fst (init_components e s))))
            (in_top_k inp) (in_min_score inp) (in_query inp)))"
  by (auto simp: run_once_def Let_def split: prod.splits option.splits button.splits)

lemma run_once_no_click:
  "in_clicked inp = None \<Longrightarrow>
     r_calls (run_once cfg e inp s) = [] \<and> r_result (run_once cfg e inp s) = None"
  by (auto simp: run_once_def Let_def split: prod.splits option.splits)

lemma run_script_cases:
  "run_script cfg e inp s = run_once cfg e inp s \<or>
   run_script cfg e inp s =
     run_once cfg e (inp\<lparr>in_clicked := None\<rparr>) (r_session (run_once cfg e inp s))"
  by (simp add: run_script_def Let_def)


lemma run_script_quiet:
  assumes "fst (load_vector_store_lazy e) = None"
  shows "r_uncaught (run_script cfg e inp s) = None"
  using assms run_script_cases [of cfg e inp s]
  by (auto simp: run_once_uncaught init_database_quiet)

lemma run_script_calls_without_retriever:
  assumes "ss_retriever s = None"
  shows "set (r_calls (run_script cfg e inp s)) \<subseteq> {CallLlmInvoke (llm_only_prompt (in_query inp))}"
proof -
  let ?s2 = "fst (init_database e (fst (init_components e s)))"
  have "ss_retriever ?s2 = None"
    using assms by (simp add: init_database_retriever init_components_retriever)
  then have once: "set (r_calls (run_once cfg e inp s)) \<subseteq> {CallLlmInvoke (llm_only_prompt (in_query inp))}"
    using run_once_calls [of cfg e inp s]
      handle_query_calls_without_retriever [of ?s2 cfg e "in_top_k inp" "in_min_score inp" "in_query inp"]
    by blast
  have again: "r_calls (run_once cfg e (inp\<lparr>in_clicked := None\<rparr>) s') = []" for s'
    using run_once_no_click [of "inp\<lparr>in_clicked := None\<rparr>" cfg e s'] by simp
  show ?thesis
    using run_script_cases [of cfg e inp s] once again by auto
qed



lemma init_components_failed:
  assumes "\<not> rag_initialized s" "fst (initialize_minimal_rag e) = None"
  shows "init_components e s = (s, [StError (10060 # ascii '' System initialization failed'')])"
  using assms by (auto simp: init_components_def split: prod.splits option.splits)

lemma run_once_failed_initialization:
  assumes "\<not> rag_initialized s" "fst (initialize_minimal_rag e) = None"
  shows "r_uncaught (run_once cfg e inp s) = None \<and>
         \<not> rag_initialized (r_session (run_once cfg e inp s)) \<and>
         r_calls (run_once cfg e inp s) = [] \<and> r_result (run_once cfg e inp s) = None"
  using assms
  by (auto simp: run_once_def Let_def init_components_failed init_database_def handle_query_def
      split: prod.splits option.splits button.splits)

lemma run_script_failed_initialization:
  assumes "\<not> rag_initialized s" "fst (initialize_minimal_rag e) = None"
  shows "r_uncaught (run_script cfg e inp s) = None \<and>
         \<not> rag_initialized (r_session (run_script cfg e inp s)) \<and>
         r_calls (run_script cfg e inp s) = [] \<and> r_result (run_script cfg e inp s) = None"
proof -
  have first: "r_uncaught (run_once cfg e inp s) = None \<and>
         \<not> rag_initialized (r_session (run_once cfg e inp s)) \<and>
         r_calls (run_once cfg e inp s) = [] \<and> r_result (run_once cfg e inp s) = None"
    using assms by (rule run_once_failed_initialization)
  then have "\<not> rag_initialized (r_session (run_once cfg e inp s))" by simp
  then have second: "r_uncaught (run_once cfg e (inp\<lparr>in_clicked := None\<rparr>) (r_session (run_once cfg e inp s))) = None \<and>
         \<not> rag_initialized (r_session (run_once cfg e (inp\<lparr>in_clicked := None\<rparr>) (r_session (run_once cfg e inp s)))) \<and>
         r_calls (run_once cfg e (inp\<lparr>in_clicked := None\<rparr>) (r_session (run_once cfg e inp s))) = [] \<and>
         r_result (run_once cfg e (inp\<lparr>in_clicked := None\<rparr>) (r_session (run_once cfg e inp s))) = None"
    using assms(2) by (rule run_once_failed_initialization)
  show ?thesis
    using run_script_cases [of cfg e inp s] first second by auto
qed

subsection \<open>The binding of the retriever\<close>

text \<open>
  Nothing ever sets \<open>vector_store_ready\<close>, and whenever the components are loaded and
  \<open>load_vector_store_lazy\<close> returns a store, the run ends with the \<open>NameError\<close> of the
  sidebar.
\<close>

lemma init_components_ready: "vector_store_ready (fst (init_components e s)) = vector_store_ready s"
  by (auto simp: init_components_def split: prod.splits option.splits)

lemma init_database_ready: "vector_store_ready (fst (init_database e s)) = vector_store_ready s"
  by (auto simp: init_database_def split: prod.splits option.splits)

lemma run_once_not_ready:
  "\<not> vector_store_ready s \<Longrightarrow> \<not> vector_store_ready (r_session (run_once cfg e inp s))"
  using init_components_ready [of e s] init_database_ready [of e "fst (init_components e s)"]
  by (auto simp: run_once_def Let_def split: prod.splits option.splits button.splits if_splits)

lemma run_script_not_ready:
  "\<not> vector_store_ready s \<Longrightarrow> \<not> vector_store_ready (r_session (run_script cfg e inp s))"
  using run_script_cases [of cfg e inp s] run_once_not_ready by metis

lemma reachable_not_ready: "reachable s \<Longrightarrow> \<not> vector_store_ready s"
  by (induction rule: reachable.induct) (simp_all add: fresh_session_def run_script_not_ready)

lemma initialize_minimal_rag_components:
  "fst (initialize_minimal_rag e) \<noteq> None \<Longrightarrow>
     \<exists>l m. initialize_minimal_rag e = (Some l, Some m, Some (ascii ''Components loaded''))"
  by (auto simp: initialize_minimal_rag_def initialize_try_def bind_exn_def
      split: sum.splits option.splits)

lemma init_components_initialized:
  "rag_initialized s \<or> fst (initialize_minimal_rag e) \<noteq> None \<Longrightarrow>
     rag_initialized (fst (init_components e s))"
  using initialize_minimal_rag_components [of e]
  by (auto simp: init_components_def split: prod.splits option.splits)

lemma store_present_run_raises:
  assumes "reachable s" and "fst (load_vector_store_lazy e) = Some vs"
    and "rag_initialized s \<or> fst (initialize_minimal_rag e) \<noteq> None"
  shows "r_uncaught (run_once cfg e inp s) = Some name_error_RagRetriever"
proof -
  let ?s1 = "fst (init_components e s)"
  have "rag_initialized ?s1"
    using assms(3) by (rule init_components_initialized)
  moreover have "\<not> vector_store_ready ?s1"
    using assms(1) by (simp add: init_components_ready reachable_not_ready)
  ultimately have "snd (snd (init_database e ?s1)) = Some name_error_RagRetriever"
    using assms(2) by (simp add: init_database_raises)
  then show ?thesis
    by (simp add: run_once_uncaught)
qed

lemma store_present_script_raises:
  assumes "reachable s" and "fst (load_vector_store_lazy e) = Some vs"
    and "rag_initialized s \<or> fst (initialize_minimal_rag e) \<noteq> None"
  shows "r_uncaught (run_script cfg e inp s) = Some name_error_RagRetriever"
proof -
  have "r_uncaught (run_once cfg e inp s) = Some name_error_RagRetriever"
    using assms by (rule store_present_run_raises)
  then have "\<not> r_rerun (run_once cfg e inp s)"
    by (auto simp: run_once_def Let_def split: prod.splits option.splits)
  then show ?thesis
    using \<open>r_uncaught (run_once cfg e inp s) = Some name_error_RagRetriever\<close>
    by (simp add: run_script_def Let_def)
qed

subsection \<open>Requests after a failed load and after a failed initialisation\<close>

text \<open>
  A session that is initialised holds a language model. With the store not loaded, the
  pipeline importable and the components there, a request with a query that is not
  blank calls the language model once, with the generation-only prompt, and its result
  is the answer of that call. With the components not there, the page shows the failure
  of the initialisation and the message of whichever guard of the handler refuses the
  request.
\<close>

lemma init_components_llm:
  assumes "rag_initialized s \<longrightarrow> ss_llm s \<noteq> None"
  shows "rag_initialized (fst (init_components e s)) \<longrightarrow> ss_llm (fst (init_components e s)) \<noteq> None"
  using assms by (auto simp: init_components_def split: prod.splits option.splits)

lemma init_database_llm:
  "rag_initialized (fst (init_database e s)) = rag_initialized s \<and>
   ss_llm (fst (init_database e s)) = ss_llm s"
  by (auto simp: init_database_def split: prod.splits option.splits)

lemma run_once_session:
  "rag_initialized (r_session (run_once cfg e inp s)) =
     rag_initialized (fst (init_database e (fst (init_components e s)))) \<and>
   ss_llm (r_session (run_once cfg e inp s)) =
     ss_llm (fst (init_database e (fst (init_components e s))))"
  by (auto simp: run_once_def Let_def split: prod.splits option.splits button.splits)

lemma run_once_llm:
  assumes "rag_initialized s \<longrightarrow> ss_llm s \<noteq> None"
  shows "rag_initialized (r_session (run_once cfg e inp s)) \<longrightarrow>
           ss_llm (r_session (run_once cfg e inp s)) \<noteq> None"
  using init_components_llm [OF assms, of e]
  by (simp add: run_once_session init_database_llm)

lemma run_script_llm:
  assumes "rag_initialized s \<longrightarrow> ss_llm s \<noteq> None"
  shows "rag_initialized (r_session (run_script cfg e inp s)) \<longrightarrow>
           ss_llm (r_session (run_script cfg e inp s)) \<noteq> None"
proof -
  have first: "rag_initialized (r_session (run_once cfg e inp s)) \<longrightarrow>
      ss_llm (r_session (run_once cfg e inp s)) \<noteq> None"
    using assms by (rule run_once_llm)
  then have "rag_initialized (r_session (run_once cfg e (inp\<lparr>in_clicked := None\<rparr>)
        (r_session (run_once cfg e inp s)))) \<longrightarrow>
      ss_llm (r_session (run_once cfg e (inp\<lparr>in_clicked := None\<rparr>)
        (r_session (run_once cfg e inp s)))) \<noteq> None"
    by (rule run_once_llm)
  then show ?thesis
    using first run_script_cases [of cfg e inp s] by auto
qed

lemma reachable_llm: "reachable s \<Longrightarrow> rag_initialized s \<longrightarrow> ss_llm s \<noteq> None"
  by (induction rule: reachable.induct) (simp_all add: fresh_session_def run_script_llm)

lemma run_script_answer_click:
  assumes "in_clicked inp = Some GetLegalAnswer"
    and "snd (snd (init_database e (fst (init_components e s)))) = None"
  shows "run_script cfg e inp s =
     \<lparr>r_session = fst (init_database e (fst (init_components e s))),
      r_ui = snd (init_components e s) @ fst (snd (init_database e (fst (init_components e s)))) @
             h_ui (handle_query cfg e (fst (init_database e (fst (init_components e s))))
                    (in_top_k inp) (in_min_score inp) (in_query inp)),
      r_calls = h_calls (handle_query cfg e (fst (init_database e (fst (init_components e s))))
                    (in_top_k inp) (in_min_score inp) (in_query inp)),
      r_result = h_result (handle_query cfg e (fst (init_database e (fst (init_components e s))))
                    (in_top_k inp) (in_min_score inp) (in_query inp)),
      r_uncaught = None, r_rerun = False\<rparr>"
  using assms
  by (auto simp: run_script_def run_once_def Let_def split: prod.splits option.splits)

lemma handle_query_generation_only:
  assumes "py_strip query \<noteq> []" and "rag_initialized s" and "import_pipeline e = Inr ()"
    and "ss_llm s = Some l" and "ss_retriever s = None"
  shows "h_calls (handle_query cfg e s top_k min_score query) =
           [CallLlmInvoke (llm_only_prompt query)] \<and>
         h_result (handle_query cfg e s top_k min_score query) =
           (case invoke l (llm_only_prompt query) of
              Inl x \<Rightarrow> None
            | Inr content \<Rightarrow> Some \<lparr>answer = content, sources = [], confidence = 0.8\<rparr>)"
  using assms
  by (auto simp: handle_query_def answer_try_def split: sum.splits option.splits)

lemma run_script_generation_only:
  assumes "reachable s" and "fst (load_vector_store_lazy e) = None"
    and "import_pipeline e = Inr ()"
    and "rag_initialized s \<or> fst (initialize_minimal_rag e) \<noteq> None"
    and "in_clicked inp = Some GetLegalAnswer" and "py_strip (in_query inp) \<noteq> []"
  shows "\<exists>l. ss_llm (r_session (run_script cfg e inp s)) = Some l \<and>
           r_uncaught (run_script cfg e inp s) = None \<and>
           r_calls (run_script cfg e inp s) = [CallLlmInvoke (llm_only_prompt (in_query inp))] \<and>
           r_result (run_script cfg e inp s) =
             (case invoke l (llm_only_prompt (in_query inp)) of
                Inl x \<Rightarrow> None
              | Inr content \<Rightarrow> Some \<lparr>answer = content, sources = [], confidence = 0.8\<rparr>)"
proof -
  let ?s1 = "fst (init_components e s)"
  let ?s2 = "fst (init_database e ?s1)"
  have quiet: "snd (snd (init_database e ?s1)) = None"
    using assms(2) by (simp add: init_database_quiet)
  have run: "run_script cfg e inp s =
     \<lparr>r_session = ?s2,
      r_ui = snd (init_components e s) @ fst (snd (init_database e ?s1)) @
             h_ui (handle_query cfg e ?s2 (in_top_k inp) (in_min_score inp) (in_query inp)),
      r_calls = h_calls (handle_query cfg e ?s2 (in_top_k inp) (in_min_score inp) (in_query inp)),
      r_result = h_result (handle_query cfg e ?s2 (in_top_k inp) (in_min_score inp) (in_query inp)),
      r_uncaught = None, r_rerun = False\<rparr>"
    using assms(5) quiet by (rule run_script_answer_click)
  have init: "rag_initialized ?s2"
    using assms(4) by (simp add: init_database_llm init_components_initialized)
  have "rag_initialized ?s1 \<longrightarrow> ss_llm ?s1 \<noteq> None"
    using reachable_llm [OF assms(1)] by (rule init_components_llm)
  then obtain l where llm: "ss_llm ?s2 = Some l"
    using init by (auto simp: init_database_llm)
  have none: "ss_retriever ?s2 = None"
    using reachable_no_retriever [OF assms(1)]
    by (simp add: init_database_retriever init_components_retriever)
  have "h_calls (handle_query cfg e ?s2 (in_top_k inp) (in_min_score inp) (in_query inp)) =
           [CallLlmInvoke (llm_only_prompt (in_query inp))] \<and>
         h_result (handle_query cfg e ?s2 (in_top_k inp) (in_min_score inp) (in_query inp)) =
           (case invoke l (llm_only_prompt (in_query inp)) of
              Inl x \<Rightarrow> None
            | Inr content \<Rightarrow> Some \<lparr>answer = content, sources = [], confidence = 0.8\<rparr>)"
    using assms(6) init assms(3) llm none by (rule handle_query_generation_only)
  then show ?thesis
    using llm by (simp add: run)
qed

lemma initialize_without_llm:
  assumes "import_pipeline e = Inr ()" and "initialize_llm e = Inr None"
  shows "initialize_minimal_rag e = (None, None, None)"
  using assms by (simp add: initialize_minimal_rag_def initialize_try_def)

lemma run_once_failed_initialization_ui:
  assumes "\<not> rag_initialized s" and "fst (initialize_minimal_rag e) = None"
  shows "r_ui (run_once cfg e inp s) =
           StError (10060 # ascii '' System initialization failed'') #
           (if in_clicked inp = Some GetLegalAnswer then
              [StError (if py_strip (in_query inp) = []
                        then ascii ''Please enter a legal question''
                        else ascii ''System not ready. Please check status.'')]
            else [])"
  using assms
  by (auto simp: run_once_def Let_def init_components_failed init_database_def handle_query_def
      split: prod.splits option.splits button.splits)

lemma run_once_rerun_click:
  "r_rerun (run_once cfg e inp s) \<Longrightarrow> in_clicked inp \<noteq> Some GetLegalAnswer"
  by (auto simp: run_once_def Let_def split: prod.splits option.splits button.splits if_splits)

lemma run_script_failed_initialization_ui:
  assumes "\<not> rag_initialized s" and "fst (initialize_minimal_rag e) = None"
  shows "r_ui (run_script cfg e inp s) =
           StError (10060 # ascii '' System initialization failed'') #
           (if in_clicked inp = Some GetLegalAnswer then
              [StError (if py_strip (in_query inp) = []
                        then ascii ''Please enter a legal question''
                        else ascii ''System not ready. Please check status.'')]
            else [])"
proof (cases "r_rerun (run_once cfg e inp s)")
  case False
  then have "run_script cfg e inp s = run_once cfg e inp s"
    by (simp add: run_script_def Let_def)
  then show ?thesis
    using assms by (simp add: run_once_failed_initialization_ui)
next
  case True
  then have click: "in_clicked inp \<noteq> Some GetLegalAnswer"
    by (rule run_once_rerun_click)
  have "\<not> rag_initialized (r_session (run_once cfg e inp s))"
    using run_once_failed_initialization [OF assms, of cfg inp] by simp
  then have "r_ui (run_once cfg e (inp\<lparr>in_clicked := None\<rparr>) (r_session (run_once cfg e inp s))) =
      [StError (10060 # ascii '' System initialization failed'')]"
    using assms(2) by (simp add: run_once_failed_initialization_ui)
  moreover have "run_script cfg e inp s =
      run_once cfg e (inp\<lparr>in_clicked := None\<rparr>) (r_session (run_once cfg e inp s))"
    using True by (simp add: run_script_def Let_def)
  ultimately show ?thesis
    using click by simp
qed

subsection \<open>The concrete inputs, evaluated\<close>

lemma example_query_not_blank: "py_strip example_query \<noteq> []"
  by (simp add: py_strip_empty_iff example_query_def ascii_def py_isspace_def)

lemma retrieve_example_low_bar:
  "retrieve example_cfg example_retriever example_query 3 0.3 =
     [\<lparr>src_name = ascii ''tort.pdf'', src_page = None, src_preview = ascii ''Negligence'',
       src_score = 0.8\<rparr>,
      \<lparr>src_name = ascii ''contract.pdf'', src_page = Some 3, src_preview = ascii ''A contract'',
       src_score = 0.5\<rparr>]"
  by (simp add: retrieve_def search_def to_scored_source_def example_defs ascii_def)

lemma retrieve_example_high_bar:
  "retrieve example_cfg example_retriever example_query 3 0.99 = []"
  by (simp add: retrieve_def search_def to_scored_source_def example_defs)

lemma initialize_example:
  "initialize_minimal_rag env_no_store =
     (Some example_llm, Some example_embedder, Some (ascii ''Components loaded''))"
  "initialize_minimal_rag env_with_store =
     (Some example_llm, Some example_embedder, Some (ascii ''Components loaded''))"
  "initialize_minimal_rag env_corrupt_store =
     (Some example_llm, Some example_embedder, Some (ascii ''Components loaded''))"
  "initialize_minimal_rag env_import_fails = (None, None, Some (ascii ''No module named chromadb''))"
  "initialize_minimal_rag env_no_llm = (None, None, None)"
  by (simp_all add: initialize_minimal_rag_def initialize_try_def env_no_store_def
      env_with_store_def env_corrupt_store_def env_import_fails_def env_no_llm_def)

lemma try_bodies_example:
  "initialize_try env_import_fails = Inl (ImportError (ascii ''No module named chromadb''))"
  "load_try env_corrupt_store = Inl (OtherError (ascii ''corrupt index''))"
  by (simp_all add: initialize_try_def load_try_def env_import_fails_def env_corrupt_store_def)

lemma load_example:
  "load_vector_store_lazy env_no_store = (None, ascii ''No legal database available'')"
  "load_vector_store_lazy env_with_store = (Some example_store, ascii ''Ready with 2 documents'')"
  "load_vector_store_lazy env_corrupt_store = (None, ascii ''Database error: corrupt index'')"
  by (simp_all add: load_vector_store_lazy_def load_try_def env_no_store_def env_with_store_def
      env_corrupt_store_def example_store_def str_nat.simps ascii_def)

lemma init_components_example:
  "init_components env_no_store fresh_session =
     (ready_session, [StSuccess (9989 # ascii '' AI System Ready'')])"
  "init_components env_with_store fresh_session =
     (ready_session, [StSuccess (9989 # ascii '' AI System Ready'')])"
  "init_components env_corrupt_store fresh_session =
     (ready_session, [StSuccess (9989 # ascii '' AI System Ready'')])"
  "init_components env_import_fails fresh_session =
     (fresh_session, [StError (10060 # ascii '' System initialization failed'')])"
  by (simp_all add: init_components_def initialize_example ready_session_def fresh_session_def)

lemma init_database_example:
  "init_database env_no_store ready_session =
     (ready_session, [StInfo (128161 # ascii '' Using AI-only mode'')], None)"
  "init_database env_with_store ready_session =
     (ready_session\<lparr>ss_vectorstore := Some example_store\<rparr>, [], Some name_error_RagRetriever)"
  "init_database env_corrupt_store ready_session =
     (ready_session, [StInfo (128161 # ascii '' Using AI-only mode'')], None)"
  "init_database env_import_fails fresh_session = (fresh_session, [], None)"
  by (simp_all add: init_database_def load_example ready_session_def fresh_session_def)

lemma handle_query_ready_session:
  "import_pipeline e = Inr () \<Longrightarrow>
   handle_query cfg e ready_session top_k min_score example_query =
     \<lparr>h_ui = render_result
        \<lparr>answer = ascii ''Negligence is a tort.'', sources = [], confidence = 0.8\<rparr>,
      h_calls = [CallLlmInvoke (llm_only_prompt example_query)],
      h_result = Some \<lparr>answer = ascii ''Negligence is a tort.'', sources = [], confidence = 0.8\<rparr>\<rparr>"
  by (simp add: handle_query_def example_query_not_blank answer_try_def ready_session_def
      fresh_session_def example_llm_def)

lemma handle_query_retriever_session:
  "import_pipeline e = Inr () \<Longrightarrow>
   h_result (handle_query example_cfg e retriever_session 3 min_score example_query) =
     Some \<lparr>answer = ascii ''Negligence is a tort.'',
           sources = retrieve example_cfg example_retriever example_query 3 min_score,
           confidence = rag_confidence (retrieve example_cfg example_retriever example_query 3 min_score)\<rparr>"
  by (simp add: handle_query_def example_query_not_blank answer_try_def retriever_session_def
      ready_session_def fresh_session_def rag_advanced_def Let_def example_llm_def)


lemma run_corrupt_store_example:
  "run_script example_cfg env_corrupt_store example_inputs fresh_session =
     \<lparr>r_session = ready_session,
      r_ui = [StSuccess (9989 # ascii '' AI System Ready''),
              StInfo (128161 # ascii '' Using AI-only mode'')] @
             render_result
               \<lparr>answer = ascii ''Negligence is a tort.'', sources = [], confidence = 0.8\<rparr>,
      r_calls = [CallLlmInvoke (llm_only_prompt example_query)],
      r_result = Some \<lparr>answer = ascii ''Negligence is a tort.'', sources = [], confidence = 0.8\<rparr>,
      r_uncaught = None, r_rerun = False\<rparr>"
proof -
  have imp: "import_pipeline env_corrupt_store = Inr ()"
    by (simp add: env_corrupt_store_def)
  show ?thesis
    by (simp add: run_script_def run_once_def Let_def init_components_example
        init_database_example handle_query_ready_session [OF imp] example_inputs_def)
qed

lemma run_with_store_example:
  "run_script example_cfg env_with_store example_inputs fresh_session =
     \<lparr>r_session = ready_session\<lparr>ss_vectorstore := Some example_store\<rparr>,
      r_ui = [StSuccess (9989 # ascii '' AI System Ready'')],
      r_calls = [], r_result = None,
      r_uncaught = Some name_error_RagRetriever, r_rerun = False\<rparr>"
  by (simp add: run_script_def run_once_def Let_def init_components_example
      init_database_example example_inputs_def)

lemma fresh_session_flags:
  "\<not> rag_initialized fresh_session" "\<not> vector_store_ready fresh_session"
  "ss_retriever fresh_session = None"
  by (simp_all add: fresh_session_def)

lemma ready_session_fields:
  "rag_initialized ready_session" "\<not> vector_store_ready ready_session"
  "ss_retriever ready_session = None" "ss_llm ready_session = Some example_llm"
  by (simp_all add: ready_session_def fresh_session_def)

lemma run_import_fails_example:
  "run_script example_cfg env_import_fails example_inputs fresh_session =
     \<lparr>r_session = fresh_session,
      r_ui = [StError (10060 # ascii '' System initialization failed''),
              StError (ascii ''System not ready. Please check status.'')],
      r_calls = [], r_result = None, r_uncaught = None, r_rerun = False\<rparr>"
  by (simp add: run_script_def run_once_def Let_def init_components_example
      init_database_example example_inputs_def handle_query_def example_query_not_blank
      fresh_session_flags)

section \<open>Properties of prebuild.py\<close>

lemma prebuild_try_raises:
  "(\<exists>e. prebuild_try b = Inl e) \<longleftrightarrow>
     (\<exists>e. build_store b = Inl e) \<or> (\<exists>v e. build_store b = Inr v \<and> build_count b v = Inl e)"
  by (auto simp: prebuild_try_def bind_exn_def split: sum.splits)

text \<open>
  Claim C5. Whenever building the vector store raises (in the constructor or in the
  count that follows it), the driver ends with exit status 1, which is not zero; when
  nothing raises it ends with status 0 after printing the number of documents and the
  elapsed wall time, the difference of the two clock readings.
\<close>

theorem prebuild_fails_loudly_or_reports:
  "(((\<exists>e. build_store b = Inl e) \<or> (\<exists>v e. build_store b = Inr v \<and> build_count b v = Inl e))
      \<longrightarrow> exit_status (prebuild_vector_store b) \<noteq> 0) \<and>
   (\<forall>v n. build_store b = Inr v \<and> build_count b v = Inr n \<longrightarrow>
      exit_status (prebuild_vector_store b) = 0 \<and>
      Text (128218 # ascii '' Documents: '' @ str_nat n) \<in> set (stdout (prebuild_vector_store b)) \<and>
      TimeTaken (clock_end b - clock_start b) \<in> set (stdout (prebuild_vector_store b)))"
  by (auto simp: prebuild_vector_store_def prebuild_try_def bind_exn_def Let_def)

theorem prebuild_fails_loudly_or_reports_witness:
  "exit_status (prebuild_vector_store
      \<lparr>build_store = Inl (OtherError (ascii ''no pdf'')), build_count = (\<lambda>v. Inr 0),
       clock_start = 10, clock_end = 12\<rparr>) \<noteq> 0 \<and>
   exit_status (prebuild_vector_store
      \<lparr>build_store = Inr \<lparr>chunks = [], similarity = (\<lambda>a b. 0)\<rparr>, build_count = (\<lambda>v. Inr 7),
       clock_start = 10, clock_end = 12\<rparr>) = 0 \<and>
   TimeTaken 2 \<in> set (stdout (prebuild_vector_store
      \<lparr>build_store = Inr \<lparr>chunks = [], similarity = (\<lambda>a b. 0)\<rparr>, build_count = (\<lambda>v. Inr 7),
       clock_start = 10, clock_end = 12\<rparr>))"
  using prebuild_fails_loudly_or_reports
    [of "\<lparr>build_store = Inl (OtherError (ascii ''no pdf'')), build_count = (\<lambda>v. Inr 0),
       clock_start = 10, clock_end = 12\<rparr>"]
    prebuild_fails_loudly_or_reports
    [of "\<lparr>build_store = Inr \<lparr>chunks = [], similarity = (\<lambda>a b. 0)\<rparr>, build_count = (\<lambda>v. Inr 7),
       clock_start = 10, clock_end = 12\<rparr>"]
  by simp

section \<open>The claims about streamlit_app.py\<close>

text \<open>
  Claim C1. When no retriever is bound in the session (which is the case while the
  store is absent), every result the handler produces has an empty list of sources and
  the confidence 0.8, the constant of the fallback branch.
\<close>

theorem generation_only_sources_and_confidence:
  assumes "ss_retriever s = None"
    and "h_result (handle_query cfg e s top_k min_score query) = Some res"
  shows "sources res = [] \<and> confidence res = 0.8"
  using handle_query_result [OF assms(2)] assms(1) by auto

theorem generation_only_sources_and_confidence_witness:
  "ss_retriever ready_session = None \<and>
   h_result (handle_query example_cfg env_no_store ready_session 3 0.3 example_query) =
     Some \<lparr>answer = ascii ''Negligence is a tort.'', sources = [], confidence = 0.8\<rparr> \<and>
   sources \<lparr>answer = ascii ''Negligence is a tort.'', sources = [], confidence = 0.8\<rparr> = [] \<and>
   confidence \<lparr>answer = ascii ''Negligence is a tort.'', sources = [], confidence = 0.8\<rparr> = 0.8"
proof -
  have imp: "import_pipeline env_no_store = Inr ()"
    by (simp add: env_no_store_def)
  have none: "ss_retriever ready_session = None"
    by (simp add: ready_session_fields)
  have res: "h_result (handle_query example_cfg env_no_store ready_session 3 0.3 example_query) =
     Some \<lparr>answer = ascii ''Negligence is a tort.'', sources = [], confidence = 0.8\<rparr>"
    by (simp add: handle_query_ready_session [OF imp])
  show ?thesis
    using none res generation_only_sources_and_confidence [OF none res] by simp
qed

text \<open>
  Claim C2. Every result the handler produces has a confidence in the closed interval
  from 0 to 1, on the path through the retriever and on the path through the language
  model alone.
\<close>

theorem confidence_in_unit_interval:
  assumes "h_result (handle_query cfg e s top_k min_score query) = Some res"
  shows "0 \<le> confidence res \<and> confidence res \<le> 1"
proof -
  from handle_query_result [OF assms] show ?thesis
  proof
    assume "\<exists>r l. ss_retriever s = Some r \<and> ss_llm s = Some l \<and>
              rag_advanced cfg query r l top_k min_score = Inr res"
    then obtain r l where "rag_advanced cfg query r l top_k min_score = Inr res"
      by blast
    then have "confidence res = rag_confidence (retrieve cfg r query top_k min_score)"
      by (simp add: rag_advanced_result)
    then show ?thesis
      using rag_confidence_bounds [of "retrieve cfg r query top_k min_score"] by simp
  next
    assume "ss_retriever s = None \<and> sources res = [] \<and> confidence res = 0.8"
    then show ?thesis by simp
  qed
qed

theorem confidence_in_unit_interval_witness:
  "h_result (handle_query example_cfg env_with_store retriever_session 3 0.3 example_query) =
     Some \<lparr>answer = ascii ''Negligence is a tort.'',
           sources = retrieve example_cfg example_retriever example_query 3 0.3,
           confidence = 0.9\<rparr> \<and>
   (0::real) \<le> 0.9 \<and> (0.9::real) \<le> 1"
proof -
  have imp: "import_pipeline env_with_store = Inr ()"
    by (simp add: env_with_store_def)
  have res: "h_result (handle_query example_cfg env_with_store retriever_session 3 0.3 example_query) =
     Some \<lparr>answer = ascii ''Negligence is a tort.'',
           sources = retrieve example_cfg example_retriever example_query 3 0.3,
           confidence = 0.9\<rparr>"
    by (simp add: handle_query_retriever_session [OF imp] retrieve_example_low_bar
        rag_confidence_def)
  show ?thesis
    using res confidence_in_unit_interval [OF res] by simp
qed

text \<open>
  Claim C3, at the input where the code departs from it. The handler does dispatch on
  the retriever of the session (\<open>handle_query_dispatch\<close>), but the script never binds
  one. Here the store directory exists and holds two chunks, the session is new, the
  question is not blank and the answer button is clicked. The claim has the request
  served through the retriever. The run instead ends in the sidebar with the uncaught
  \<open>NameError\<close> for \<open>RagRetriever\<close>: the store is in the session, no retriever is bound,
  and the handler is never reached, so no call is made and there is no result. The same
  happens in every world where the store loads (\<open>store_present_script_raises\<close>).
\<close>

theorem retriever_binding_raises_name_error:
  "fst (load_vector_store_lazy env_with_store) = Some example_store \<and>
   r_uncaught (run_script example_cfg env_with_store example_inputs fresh_session) =
     Some name_error_RagRetriever \<and>
   ss_vectorstore (r_session (run_script example_cfg env_with_store example_inputs fresh_session)) =
     Some example_store \<and>
   ss_retriever (r_session (run_script example_cfg env_with_store example_inputs fresh_session)) =
     None \<and>
   r_calls (run_script example_cfg env_with_store example_inputs fresh_session) = [] \<and>
   r_result (run_script example_cfg env_with_store example_inputs fresh_session) = None"
  by (simp add: run_with_store_example load_example ready_session_fields)



text \<open>
  Claim C6. The sources of every result the handler produces are in descending order
  of score, and each score is at least the \<open>min_score\<close> of the request. (A result of
  the generation-only path has no sources.)
\<close>

theorem sources_sorted_above_min_score:
  assumes "h_result (handle_query cfg e s top_k min_score query) = Some res"
  shows "sorted_wrt (\<lambda>a b. src_score b \<le> src_score a) (sources res) \<and>
         (\<forall>x\<in>set (sources res). min_score \<le> src_score x)"
proof -
  from handle_query_result [OF assms] show ?thesis
  proof
    assume "\<exists>r l. ss_retriever s = Some r \<and> ss_llm s = Some l \<and>
              rag_advanced cfg query r l top_k min_score = Inr res"
    then obtain r l where "rag_advanced cfg query r l top_k min_score = Inr res"
      by blast
    then have "sources res = retrieve cfg r query top_k min_score"
      by (simp add: rag_advanced_result)
    then show ?thesis
      using retrieve_sorted [of cfg r query top_k min_score]
        retrieve_min_score [of _ cfg r query top_k min_score]
      by auto
  next
    assume "ss_retriever s = None \<and> sources res = [] \<and> confidence res = 0.8"
    then show ?thesis by simp
  qed
qed

theorem sources_sorted_above_min_score_witness:
  "h_result (handle_query example_cfg env_with_store retriever_session 3 0.3 example_query) =
     Some \<lparr>answer = ascii ''Negligence is a tort.'',
           sources = retrieve example_cfg example_retriever example_query 3 0.3,
           confidence = 0.9\<rparr> \<and>
   map src_score (retrieve example_cfg example_retriever example_query 3 0.3) = [0.8, 0.5] \<and>
   sorted_wrt (\<lambda>a b. src_score b \<le> src_score a)
     (retrieve example_cfg example_retriever example_query 3 0.3) \<and>
   (0.3::real) \<le> 0.8 \<and> (0.3::real) \<le> 0.5"
proof -
  have imp: "import_pipeline env_with_store = Inr ()"
    by (simp add: env_with_store_def)
  have res: "h_result (handle_query example_cfg env_with_store retriever_session 3 0.3 example_query) =
     Some \<lparr>answer = ascii ''Negligence is a tort.'',
           sources = retrieve example_cfg example_retriever example_query 3 0.3,
           confidence = 0.9\<rparr>"
    by (simp add: handle_query_retriever_session [OF imp] retrieve_example_low_bar
        rag_confidence_def)
  have scores: "map src_score (retrieve example_cfg example_retriever example_query 3 0.3) = [0.8, 0.5]"
    by (simp add: retrieve_example_low_bar)
  show ?thesis
    using res scores sources_sorted_above_min_score [OF res] by simp
qed

text \<open>
  Claim C7. When retrieval returns no source, the retrieval-augmented path sends the
  generation-only prompt, which is built from the query alone, and its outcome is that
  of the generation call: the answer with no sources and the baseline confidence when
  the call returns, \<open>GenerationFailed\<close> only when the call itself fails. An empty
  retrieval is never a failure of its own.
\<close>

theorem below_threshold_falls_back:
  assumes "retrieve cfg r query top_k min_score = []"
  shows "rag_prompt cfg query (retrieve cfg r query top_k min_score) = plain_prompt cfg query \<and>
         rag_advanced cfg query r l top_k min_score =
           (case invoke l (plain_prompt cfg query) of
              Inl x \<Rightarrow> Inl (GenerationFailed (str_exn x))
            | Inr a \<Rightarrow> Inr \<lparr>answer = a, sources = [], confidence = 0.8\<rparr>)"
  using assms
  by (simp add: rag_advanced_def rag_prompt_def rag_confidence_def Let_def split: sum.split)

theorem below_threshold_falls_back_witness:
  "chunks (r_store example_retriever) \<noteq> [] \<and>
   map snd (search (r_store example_retriever) (embed (r_embedder example_retriever) example_query) 3) =
     [0.8, 0.5] \<and>
   retrieve example_cfg example_retriever example_query 3 0.99 = [] \<and>
   rag_advanced example_cfg example_query example_retriever example_llm 3 0.99 =
     Inr \<lparr>answer = ascii ''Negligence is a tort.'', sources = [], confidence = 0.8\<rparr>"
proof -
  have populated: "chunks (r_store example_retriever) \<noteq> []"
    by (simp add: example_retriever_def example_store_def)
  have best: "map snd (search (r_store example_retriever)
      (embed (r_embedder example_retriever) example_query) 3) = [0.8, 0.5]"
    by (simp add: search_def example_retriever_def example_store_def example_embedder_def)
  show ?thesis
    using populated best retrieve_example_high_bar
      below_threshold_falls_back [OF retrieve_example_high_bar, of example_llm]
    by (simp add: example_llm_def)
qed

text \<open>
  Claim C9. A query that is empty or consists of whitespace only is rejected by the
  first guard of the handler: the page shows the error message, no call is made to the
  pipeline or to the language model, and there is no result.
\<close>

theorem blank_query_rejected:
  assumes "\<forall>c\<in>set query. py_isspace c"
  shows "handle_query cfg e s top_k min_score query =
           \<lparr>h_ui = [StError (ascii ''Please enter a legal question'')], h_calls = [],
            h_result = None\<rparr>"
  using assms by (simp add: handle_query_def py_strip_empty_iff)

theorem blank_query_rejected_witness:
  "py_isspace 32 \<and> py_isspace 9 \<and> py_isspace 10 \<and> py_isspace 160 \<and>
   handle_query example_cfg env_with_store retriever_session 3 0.3 [32, 9, 10, 160] =
     \<lparr>h_ui = [StError (ascii ''Please enter a legal question'')], h_calls = [],
      h_result = None\<rparr>"
proof -
  have blank: "\<forall>c\<in>set [32, 9, 10, 160]. py_isspace c"
    by (simp add: py_isspace_def)
  show ?thesis
    using blank blank_query_rejected [OF blank, of example_cfg env_with_store retriever_session 3 "0.3"]
    by simp
qed

text \<open>
  Claim C10 fails for \<open>initialize_minimal_rag\<close>. When the import of the pipeline raises,
  the function returns a triple, \<open>(None, None, message)\<close>; when \<open>initialize_llm\<close> returns
  nothing it returns \<open>(None, None, None)\<close>, with no message. After the failed
  initialisation the application does not answer in generation-only mode: the second
  guard of the handler refuses the request, and the language model is never called.
\<close>

theorem failed_initialization_refuses_requests:
  "initialize_minimal_rag env_import_fails =
     (None, None, Some (ascii ''No module named chromadb'')) \<and>
   initialize_minimal_rag env_no_llm = (None, None, None) \<and>
   r_ui (run_script example_cfg env_import_fails example_inputs fresh_session) =
     [StError (10060 # ascii '' System initialization failed''),
      StError (ascii ''System not ready. Please check status.'')] \<and>
   r_calls (run_script example_cfg env_import_fails example_inputs fresh_session) = [] \<and>
   r_result (run_script example_cfg env_import_fails example_inputs fresh_session) = None \<and>
   r_uncaught (run_script example_cfg env_import_fails example_inputs fresh_session) = None"
  by (simp add: initialize_example run_import_fails_example)

text \<open>
  Claim C10 as amended. Neither function lets an exception of its body escape. When
  the body of \<open>initialize_minimal_rag\<close> raises, the function returns the triple
  \<open>(None, None, message)\<close>, and when \<open>initialize_llm\<close> returns nothing it returns
  \<open>(None, None, None)\<close>. When the body of \<open>load_vector_store_lazy\<close> raises, that function
  returns the pair \<open>(None, message)\<close>, as it does when the directory is missing.

  After a failed load the run of a reachable session ends without an uncaught exception
  and a request can only call the language model with the generation-only prompt; when
  moreover the pipeline can be imported, the components are loaded, the answer button
  is clicked and the query is not blank, the request makes exactly that call and its
  result is the answer of the call with no sources and the confidence 0.8 (no result
  when the call raises).

  After a failed initialisation the run ends without an uncaught exception as well, the
  session stays uninitialised, no call is made and there is no result. The page shows
  the failure of the initialisation and, when the answer button is clicked, the refusal
  of the request: \<open>System not ready. Please check status.\<close> for a query that is not
  blank, \<open>Please enter a legal question\<close> for a blank one.
\<close>

theorem failures_are_returned_not_raised:
  "(\<forall>x. initialize_try e = Inl x \<longrightarrow>
      initialize_minimal_rag e = (None, None, Some (str_exn x))) \<and>
   (import_pipeline e = Inr () \<and> initialize_llm e = Inr None \<longrightarrow>
      initialize_minimal_rag e = (None, None, None)) \<and>
   (\<forall>x. load_try e = Inl x \<longrightarrow>
      load_vector_store_lazy e = (None, ascii ''Database error: '' @ str_exn x)) \<and>
   (import_pipeline e = Inr () \<and> \<not> persist_dir_exists e \<longrightarrow>
      load_vector_store_lazy e = (None, ascii ''No legal database available'')) \<and>
   (reachable s \<and> fst (load_vector_store_lazy e) = None \<longrightarrow>
      r_uncaught (run_script cfg e inp s) = None \<and>
      set (r_calls (run_script cfg e inp s)) \<subseteq> {CallLlmInvoke (llm_only_prompt (in_query inp))}) \<and>
   (reachable s \<and> fst (load_vector_store_lazy e) = None \<and> import_pipeline e = Inr () \<and>
    (rag_initialized s \<or> fst (initialize_minimal_rag e) \<noteq> None) \<and>
    in_clicked inp = Some GetLegalAnswer \<and> py_strip (in_query inp) \<noteq> [] \<longrightarrow>
      (\<exists>l. ss_llm (r_session (run_script cfg e inp s)) = Some l \<and>
         r_uncaught (run_script cfg e inp s) = None \<and>
         r_calls (run_script cfg e inp s) = [CallLlmInvoke (llm_only_prompt (in_query inp))] \<and>
         r_result (run_script cfg e inp s) =
           (case invoke l (llm_only_prompt (in_query inp)) of
              Inl x \<Rightarrow> None
            | Inr content \<Rightarrow> Some \<lparr>answer = content, sources = [], confidence = 0.8\<rparr>))) \<and>
   (\<not> rag_initialized s \<and> fst (initialize_minimal_rag e) = None \<longrightarrow>
      r_uncaught (run_script cfg e inp s) = None \<and>
      \<not> rag_initialized (r_session (run_script cfg e inp s)) \<and>
      r_calls (run_script cfg e inp s) = [] \<and>
      r_result (run_script cfg e inp s) = None \<and>
      r_ui (run_script cfg e inp s) =
        StError (10060 # ascii '' System initialization failed'') #
        (if in_clicked inp = Some GetLegalAnswer then
           [StError (if py_strip (in_query inp) = []
                     then ascii ''Please enter a legal question''
                     else ascii ''System not ready. Please check status.'')]
         else []))"
proof -
  have init: "\<forall>x. initialize_try e = Inl x \<longrightarrow>
      initialize_minimal_rag e = (None, None, Some (str_exn x))"
    by (simp add: initialize_minimal_rag_def)
  have no_llm: "import_pipeline e = Inr () \<and> initialize_llm e = Inr None \<longrightarrow>
      initialize_minimal_rag e = (None, None, None)"
    by (simp add: initialize_without_llm)
  have load: "\<forall>x. load_try e = Inl x \<longrightarrow>
      load_vector_store_lazy e = (None, ascii ''Database error: '' @ str_exn x)"
    by (simp add: load_vector_store_lazy_def)
  have missing: "import_pipeline e = Inr () \<and> \<not> persist_dir_exists e \<longrightarrow>
      load_vector_store_lazy e = (None, ascii ''No legal database available'')"
    by (simp add: load_vector_store_lazy_def load_try_def)
  have bound: "reachable s \<and> fst (load_vector_store_lazy e) = None \<longrightarrow>
      r_uncaught (run_script cfg e inp s) = None \<and>
      set (r_calls (run_script cfg e inp s)) \<subseteq> {CallLlmInvoke (llm_only_prompt (in_query inp))}"
    using run_script_quiet [of e cfg inp s] reachable_no_retriever [of s]
      run_script_calls_without_retriever [of s cfg e inp]
    by blast
  have degraded: "reachable s \<and> fst (load_vector_store_lazy e) = None \<and> import_pipeline e = Inr () \<and>
    (rag_initialized s \<or> fst (initialize_minimal_rag e) \<noteq> None) \<and>
    in_clicked inp = Some GetLegalAnswer \<and> py_strip (in_query inp) \<noteq> [] \<longrightarrow>
      (\<exists>l. ss_llm (r_session (run_script cfg e inp s)) = Some l \<and>
         r_uncaught (run_script cfg e inp s) = None \<and>
         r_calls (run_script cfg e inp s) = [CallLlmInvoke (llm_only_prompt (in_query inp))] \<and>
         r_result (run_script cfg e inp s) =
           (case invoke l (llm_only_prompt (in_query inp)) of
              Inl x \<Rightarrow> None
            | Inr content \<Rightarrow> Some \<lparr>answer = content, sources = [], confidence = 0.8\<rparr>))"
    using run_script_generation_only [of s e inp cfg] by blast
  have refused: "\<not> rag_initialized s \<and> fst (initialize_minimal_rag e) = None \<longrightarrow>
      r_uncaught (run_script cfg e inp s) = None \<and>
      \<not> rag_initialized (r_session (run_script cfg e inp s)) \<and>
      r_calls (run_script cfg e inp s) = [] \<and>
      r_result (run_script cfg e inp s) = None \<and>
      r_ui (run_script cfg e inp s) =
        StError (10060 # ascii '' System initialization failed'') #
        (if in_clicked inp = Some GetLegalAnswer then
           [StError (if py_strip (in_query inp) = []
                     then ascii ''Please enter a legal question''
                     else ascii ''System not ready. Please check status.'')]
         else [])"
    using run_script_failed_initialization [of s e cfg inp]
      run_script_failed_initialization_ui [of s e cfg inp]
    by blast
  show ?thesis
    using init no_llm load missing bound degraded refused by blast
qed

theorem failures_are_returned_not_raised_witness:
  "initialize_try env_import_fails = Inl (ImportError (ascii ''No module named chromadb'')) \<and>
   initialize_minimal_rag env_import_fails =
     (None, None, Some (ascii ''No module named chromadb'')) \<and>
   import_pipeline env_no_llm = Inr () \<and> initialize_llm env_no_llm = Inr None \<and>
   initialize_minimal_rag env_no_llm = (None, None, None) \<and>
   load_try env_corrupt_store = Inl (OtherError (ascii ''corrupt index'')) \<and>
   load_vector_store_lazy env_corrupt_store = (None, ascii ''Database error: corrupt index'') \<and>
   import_pipeline env_no_store = Inr () \<and> \<not> persist_dir_exists env_no_store \<and>
   load_vector_store_lazy env_no_store = (None, ascii ''No legal database available'') \<and>
   reachable fresh_session \<and> fst (load_vector_store_lazy env_corrupt_store) = None \<and>
   import_pipeline env_corrupt_store = Inr () \<and>
   fst (initialize_minimal_rag env_corrupt_store) \<noteq> None \<and>
   in_clicked example_inputs = Some GetLegalAnswer \<and> py_strip (in_query example_inputs) \<noteq> [] \<and>
   ss_llm (r_session (run_script example_cfg env_corrupt_store example_inputs fresh_session)) =
     Some example_llm \<and>
   r_uncaught (run_script example_cfg env_corrupt_store example_inputs fresh_session) = None \<and>
   r_calls (run_script example_cfg env_corrupt_store example_inputs fresh_session) =
     [CallLlmInvoke (llm_only_prompt example_query)] \<and>
   r_result (run_script example_cfg env_corrupt_store example_inputs fresh_session) =
     Some \<lparr>answer = ascii ''Negligence is a tort.'', sources = [], confidence = 0.8\<rparr> \<and>
   \<not> rag_initialized fresh_session \<and> fst (initialize_minimal_rag env_import_fails) = None \<and>
   r_uncaught (run_script example_cfg env_import_fails example_inputs fresh_session) = None \<and>
   \<not> rag_initialized
     (r_session (run_script example_cfg env_import_fails example_inputs fresh_session)) \<and>
   r_calls (run_script example_cfg env_import_fails example_inputs fresh_session) = [] \<and>
   r_result (run_script example_cfg env_import_fails example_inputs fresh_session) = None \<and>
   r_ui (run_script example_cfg env_import_fails example_inputs fresh_session) =
     [StError (10060 # ascii '' System initialization failed''),
      StError (ascii ''System not ready. Please check status.'')] \<and>
   fst (initialize_minimal_rag env_no_llm) = None \<and>
   py_strip (in_query (example_inputs\<lparr>in_query := [32, 9]\<rparr>)) = [] \<and>
   r_ui (run_script example_cfg env_no_llm (example_inputs\<lparr>in_query := [32, 9]\<rparr>) fresh_session) =
     [StError (10060 # ascii '' System initialization failed''),
      StError (ascii ''Please enter a legal question'')]"
proof -
  have blank: "py_strip [32, 9] = []"
    by (simp add: py_strip_empty_iff py_isspace_def)
  have worlds: "import_pipeline env_no_llm = Inr ()" "initialize_llm env_no_llm = Inr None"
    "import_pipeline env_no_store = Inr ()" "\<not> persist_dir_exists env_no_store"
    "import_pipeline env_corrupt_store = Inr ()"
    by (simp_all add: env_no_llm_def env_no_store_def env_corrupt_store_def)
  have request: "in_clicked example_inputs = Some GetLegalAnswer"
    "in_query example_inputs = example_query"
    "in_clicked (example_inputs\<lparr>in_query := [32, 9]\<rparr>) = Some GetLegalAnswer"
    by (simp_all add: example_inputs_def)
  show ?thesis
    using failures_are_returned_not_raised
        [where e = env_import_fails and s = fresh_session and cfg = example_cfg
           and inp = example_inputs]
      failures_are_returned_not_raised
        [where e = env_corrupt_store and s = fresh_session and cfg = example_cfg
           and inp = example_inputs]
      failures_are_returned_not_raised
        [where e = env_no_store and s = fresh_session and cfg = example_cfg
           and inp = example_inputs]
      failures_are_returned_not_raised
        [where e = env_no_llm and s = fresh_session and cfg = example_cfg
           and inp = "example_inputs\<lparr>in_query := [32, 9]\<rparr>"]
      reachable_fresh
    by (simp add: try_bodies_example initialize_example load_example run_corrupt_store_example
        run_import_fails_example fresh_session_flags ready_session_fields worlds request blank
        example_query_not_blank)
qed

end
